theory Spec2Isabelle
  imports Complex_Main
begin

section \<open>Scalers.py: standardizers over named two-dimensional arrays\<close>

text \<open>
  The module defines an abstract class \<open>AbsStandardizer\<close> and four subclasses.  An
  instance is built from keyword arguments (name, array); the constructor stores them,
  sets \<open>data\<close> to the empty dictionary and calls \<open>init_normalization\<close>, which fills
  \<open>_params\<close> and \<open>data\<close>.

  A numpy array has a dtype, and numpy computes in it.  Floating-point arithmetic is
  modelled exactly: a finite element is a \<open>real\<close>, and the floating-point values that are
  not numbers of the reals (the infinities and NaN, which numpy returns from a division
  by zero instead of raising) are the single value \<open>NonFinite\<close>; rounding and
  floating-point overflow are outside the model.  Integer arithmetic is modelled as numpy
  does it: the result of an operation on fixed-width integers wraps around.
\<close>

subsection \<open>Errors and array elements\<close>

datatype py_error = KeyError | ValueError | IndexError

definition bind :: "py_error + 'a \<Rightarrow> ('a \<Rightarrow> py_error + 'b) \<Rightarrow> py_error + 'b" where
  "bind m f = (case m of Inl e \<Rightarrow> Inl e | Inr x \<Rightarrow> f x)"

datatype elem = Fin real | NonFinite

text \<open>
  Elementwise arithmetic on floating-point numbers, without rounding.  An operation with
  a non-finite operand is non-finite, and so is every division by zero (\<open>x / 0\<close> is an
  infinity, \<open>0 / 0\<close> is NaN).  The registered arrays hold finite numbers only, so a
  non-finite parameter is a NaN, and a non-finite divisor never gives a finite quotient.
\<close>

fun el_sub :: "elem \<Rightarrow> elem \<Rightarrow> elem" where
  "el_sub (Fin a) (Fin b) = Fin (a - b)"
| "el_sub _ _ = NonFinite"

fun el_add :: "elem \<Rightarrow> elem \<Rightarrow> elem" where
  "el_add (Fin a) (Fin b) = Fin (a + b)"
| "el_add _ _ = NonFinite"

fun el_mul :: "elem \<Rightarrow> elem \<Rightarrow> elem" where
  "el_mul (Fin a) (Fin b) = Fin (a * b)"
| "el_mul _ _ = NonFinite"

fun el_div :: "elem \<Rightarrow> elem \<Rightarrow> elem" where
  "el_div (Fin a) (Fin b) = (if b = 0 then NonFinite else Fin (a / b))"
| "el_div _ _ = NonFinite"

fun el_sqrt :: "elem \<Rightarrow> elem" where
  "el_sqrt (Fin a) = (if a < 0 then NonFinite else Fin (sqrt a))"
| "el_sqrt NonFinite = NonFinite"

subsection \<open>Dtypes\<close>

text \<open>
  The dtypes of the model are the floating-point types (one dtype, since their
  arithmetic is exact here) and the signed and unsigned integers of \<open>n\<close> bits (numpy has
  8, 16, 32 and 64).  Arrays of booleans, complex numbers, dates or objects are outside
  the model.

  \<open>promote_types\<close> is numpy's result type of an arithmetic operation on two arrays: a
  floating-point operand makes the result floating-point; two integers of the same
  signedness give the wider one; a signed and an unsigned integer give the signed type
  that holds both, and float64 when there is none (uint64 with a signed integer).
\<close>

datatype dtype = Floating | SInt nat | UInt nat

fun promote_types :: "dtype \<Rightarrow> dtype \<Rightarrow> dtype" where
  "promote_types Floating _ = Floating"
| "promote_types _ Floating = Floating"
| "promote_types (SInt a) (SInt b) = SInt (max a b)"
| "promote_types (UInt a) (UInt b) = UInt (max a b)"
| "promote_types (SInt a) (UInt b) =
     (if b < a then SInt a else if 2 * b \<le> 64 then SInt (2 * b) else Floating)"
| "promote_types (UInt a) (SInt b) =
     (if a < b then SInt b else if 2 * a \<le> 64 then SInt (2 * a) else Floating)"

text \<open>
  The value that a number takes when it is stored in a dtype: unchanged in a
  floating-point type; reduced modulo \<open>2 ^ n\<close> into \<open>[- 2 ^ n / 2, 2 ^ n / 2)\<close> in a signed
  and into \<open>[0, 2 ^ n)\<close> in an unsigned integer of \<open>n\<close> bits.  This is written on the reals,
  so that it applies to the integers that an integer array holds without a conversion.
\<close>

definition wrap_signed :: "nat \<Rightarrow> real \<Rightarrow> real" where
  "wrap_signed n r = r - 2 ^ n * of_int \<lfloor>(r + 2 ^ n / 2) / 2 ^ n\<rfloor>"

definition wrap_unsigned :: "nat \<Rightarrow> real \<Rightarrow> real" where
  "wrap_unsigned n r = r - 2 ^ n * of_int \<lfloor>r / 2 ^ n\<rfloor>"

fun wrap :: "dtype \<Rightarrow> real \<Rightarrow> real" where
  "wrap Floating r = r"
| "wrap (SInt n) r = wrap_signed n r"
| "wrap (UInt n) r = wrap_unsigned n r"

fun cast :: "dtype \<Rightarrow> elem \<Rightarrow> elem" where
  "cast d (Fin r) = Fin (wrap d r)"
| "cast d NonFinite = NonFinite"

text \<open>
  The four numpy operations of the module.  Subtraction, addition and multiplication
  compute in the promoted type of their operands and store the result there; true
  division (\<open>/\<close>) always computes and returns floating-point numbers.
\<close>

datatype ufunc = Subtract | Add | Multiply | True_divide

fun result_type :: "ufunc \<Rightarrow> dtype \<Rightarrow> dtype \<Rightarrow> dtype" where
  "result_type True_divide d e = Floating"
| "result_type u d e = promote_types d e"

fun ufunc_call :: "ufunc \<Rightarrow> dtype \<Rightarrow> elem \<Rightarrow> elem \<Rightarrow> elem" where
  "ufunc_call Subtract d x y = cast d (el_sub x y)"
| "ufunc_call Add d x y = cast d (el_add x y)"
| "ufunc_call Multiply d x y = cast d (el_mul x y)"
| "ufunc_call True_divide d x y = el_div x y"

subsection \<open>Arrays\<close>

text \<open>
  A two-dimensional numpy array of shape \<open>(n, c)\<close> is its dtype, the list of its \<open>n\<close> rows
  and the column count \<open>c\<close>, which an array without rows still has.  \<open>wf\<close> says that every
  row has \<open>c\<close> elements.  A one-dimensional array (a parameter vector) is its dtype and the
  list of its elements.
\<close>

record 'a ndarray =
  dtype :: dtype
  ncols :: nat
  rows :: "'a list list"

record vector =
  vdtype :: dtype
  vals :: "elem list"

definition wf :: "'a ndarray \<Rightarrow> bool" where
  "wf a = list_all (\<lambda>r. length r = ncols a) (rows a)"

definition columns :: "'a ndarray \<Rightarrow> 'a list list" where
  "columns a = map (\<lambda>j. map (\<lambda>r. r ! j) (rows a)) [0..<ncols a]"

definition to_elem :: "real ndarray \<Rightarrow> elem ndarray" where
  "to_elem a = \<lparr>dtype = dtype a, ncols = ncols a, rows = map (map Fin) (rows a)\<rparr>"

text \<open>
  \<open>a op v\<close> for an array of shape \<open>(n, c)\<close> and a vector of length \<open>c'\<close>: numpy broadcasts
  the vector along the rows.  The shapes are compatible when \<open>c = c'\<close> or one of them is
  1 (that one is stretched); otherwise the operation raises ValueError.  \<open>v op w\<close> for
  two vectors is only applied to the parameters of one key, which have the same length.
\<close>

definition broadcast :: "ufunc \<Rightarrow> elem ndarray \<Rightarrow> vector \<Rightarrow> py_error + elem ndarray" where
  "broadcast u a v =
     (let d = result_type u (dtype a) (vdtype v) in
      if ncols a = length (vals v) then
        Inr \<lparr>dtype = d, ncols = ncols a, rows = map (\<lambda>r. map2 (ufunc_call u d) r (vals v)) (rows a)\<rparr>
      else if length (vals v) = 1 then
        Inr \<lparr>dtype = d, ncols = ncols a,
             rows = map (map (\<lambda>x. ufunc_call u d x (hd (vals v)))) (rows a)\<rparr>
      else if ncols a = 1 then
        Inr \<lparr>dtype = d, ncols = length (vals v),
             rows = map (\<lambda>r. map (ufunc_call u d (hd r)) (vals v)) (rows a)\<rparr>
      else Inl ValueError)"

definition vector_ufunc :: "ufunc \<Rightarrow> vector \<Rightarrow> vector \<Rightarrow> vector" where
  "vector_ufunc u v w =
     (let d = result_type u (vdtype v) (vdtype w) in
      \<lparr>vdtype = d, vals = map2 (ufunc_call u d) (vals v) (vals w)\<rparr>)"

subsection \<open>The numpy reductions along axis 0\<close>

text \<open>
  \<open>value.min(axis=0)\<close> and \<open>value.max(axis=0)\<close>: the minimum and maximum of every column,
  in the dtype of the array.  On an array without rows they raise ValueError (a reduction
  over nothing that has no identity).
\<close>

definition amin :: "real ndarray \<Rightarrow> py_error + vector" where
  "amin a = (if rows a = [] then Inl ValueError
             else Inr \<lparr>vdtype = dtype a, vals = map (\<lambda>col. Fin (Min (set col))) (columns a)\<rparr>)"

definition amax :: "real ndarray \<Rightarrow> py_error + vector" where
  "amax a = (if rows a = [] then Inl ValueError
             else Inr \<lparr>vdtype = dtype a, vals = map (\<lambda>col. Fin (Max (set col))) (columns a)\<rparr>)"

text \<open>
  \<open>value.mean(axis=0)\<close>: the sum of a column divided by the number of rows, computed in
  floating point also for an integer array; without rows this is \<open>0 / 0\<close>, a NaN (numpy
  warns and does not raise).
\<close>

definition col_mean :: "real list \<Rightarrow> elem" where
  "col_mean col = el_div (Fin (sum_list col)) (Fin (real (length col)))"

definition mean :: "real ndarray \<Rightarrow> vector" where
  "mean a = \<lparr>vdtype = Floating, vals = map col_mean (columns a)\<rparr>"

text \<open>
  \<open>value.std(axis=0)\<close> with the default \<open>ddof = 0\<close>: numpy computes
  \<open>sqrt(mean(abs(x - x.mean()) ** 2))\<close> in floating point, the divisor of the inner mean
  being the number of rows.
\<close>

definition col_std :: "real list \<Rightarrow> elem" where
  "col_std col =
     el_sqrt (el_div
       (foldr el_add (map (\<lambda>x. let d = el_sub (Fin x) (col_mean col) in el_mul d d) col) (Fin 0))
       (Fin (real (length col))))"

definition std :: "real ndarray \<Rightarrow> vector" where
  "std a = \<lparr>vdtype = Floating, vals = map col_std (columns a)\<rparr>"

text \<open>
  \<open>np.quantile(value, q, axis=0)\<close> with the default method (\<open>linear\<close>), as numpy
  documents it: in the sorted column of \<open>n\<close> elements the virtual index is \<open>(n - 1) * q\<close>;
  the result is a floating-point number that interpolates linearly between the element at
  the floor of that index and the next one (the last element when there is no next one).
  On an array without rows there is no element to index: recent versions of numpy raise
  IndexError (older ones returned NaN); the theorems about the quantiles are stated for
  arrays that have a row.
\<close>

definition col_quantile :: "real \<Rightarrow> real list \<Rightarrow> real" where
  "col_quantile q col =
     (let s = sort col;
          n = length s;
          h = real (n - 1) * q;
          j = nat \<lfloor>h\<rfloor>;
          g = h - real j
      in s ! j + (s ! (min (j + 1) (n - 1)) - s ! j) * g)"

definition quantile :: "real ndarray \<Rightarrow> real \<Rightarrow> py_error + vector" where
  "quantile a q = (if rows a = [] then Inl IndexError
                   else Inr \<lparr>vdtype = Floating,
                             vals = map (\<lambda>col. Fin (col_quantile q col)) (columns a)\<rparr>)"

text \<open>
  \<open>np.median(value, axis=0)\<close>: the middle element of the sorted column when the number of
  rows is odd, the mean of the two middle elements when it is even, as a floating-point
  number; NaN without rows.
\<close>

definition col_median :: "real list \<Rightarrow> elem" where
  "col_median col =
     (let s = sort col; n = length s
      in if n = 0 then NonFinite
         else if even n then Fin ((s ! (n div 2 - 1) + s ! (n div 2)) / 2)
         else Fin (s ! (n div 2)))"

definition median :: "real ndarray \<Rightarrow> vector" where
  "median a = \<lparr>vdtype = Floating, vals = map col_median (columns a)\<rparr>"

subsection \<open>AbsStandardizer\<close>

text \<open>
  The keyword arguments of the constructor are a Python dictionary: a list of (name,
  array) pairs in insertion order, with distinct names.  \<open>'p\<close> is the parameter record of
  the subclass.
\<close>

type_synonym kwargs = "(string \<times> real ndarray) list"

record 'p standardizer =
  data_to_stadnardize :: kwargs
  data :: "string \<rightharpoonup> elem ndarray"
  params :: "string \<rightharpoonup> 'p"

definition AbsStandardizer_init ::
  "('p standardizer \<Rightarrow> py_error + 'p standardizer) \<Rightarrow> kwargs \<Rightarrow> py_error + 'p standardizer" where
  "AbsStandardizer_init init_normalization kw =
     init_normalization \<lparr>data_to_stadnardize = kw, data = Map.empty, params = Map.empty\<rparr>"

definition getitem :: "'p standardizer \<Rightarrow> string \<Rightarrow> py_error + elem ndarray" where
  "getitem self key = (case data self key of None \<Rightarrow> Inl KeyError | Some v \<Rightarrow> Inr v)"

subsection \<open>MinMaxStandardizer\<close>

record minmax_params =
  p_min :: vector
  p_max :: vector

fun MinMax_loop :: "kwargs \<Rightarrow> minmax_params standardizer \<Rightarrow> py_error + minmax_params standardizer" where
  "MinMax_loop [] self = Inr self"
| "MinMax_loop ((key, value) # items) self =
     bind (amin value) (\<lambda>data_min.
     bind (amax value) (\<lambda>data_max.
     let self1 = self\<lparr>params := (params self)(key \<mapsto> \<lparr>p_min = data_min, p_max = data_max\<rparr>)\<rparr> in
     bind (broadcast Subtract (to_elem value) data_min) (\<lambda>d.
     bind (broadcast True_divide d (vector_ufunc Subtract data_max data_min)) (\<lambda>nd.
     MinMax_loop items (self1\<lparr>data := (data self1)(key \<mapsto> nd)\<rparr>)))))"

definition MinMax_init_normalization ::
  "minmax_params standardizer \<Rightarrow> py_error + minmax_params standardizer" where
  "MinMax_init_normalization self =
     MinMax_loop (data_to_stadnardize self) (self\<lparr>params := Map.empty\<rparr>)"

definition MinMaxStandardizer :: "kwargs \<Rightarrow> py_error + minmax_params standardizer" where
  "MinMaxStandardizer kw = AbsStandardizer_init MinMax_init_normalization kw"

definition MinMax_normalize ::
  "minmax_params standardizer \<Rightarrow> elem ndarray \<Rightarrow> string \<Rightarrow> py_error + elem ndarray" where
  "MinMax_normalize self x key =
     (case params self key of
        None \<Rightarrow> Inl KeyError
      | Some p \<Rightarrow>
          bind (broadcast Subtract x (p_min p)) (\<lambda>d.
          broadcast True_divide d (vector_ufunc Subtract (p_max p) (p_min p))))"

definition MinMax_denormalize ::
  "minmax_params standardizer \<Rightarrow> elem ndarray \<Rightarrow> string \<Rightarrow> py_error + elem ndarray" where
  "MinMax_denormalize self y key =
     (case params self key of
        None \<Rightarrow> Inl KeyError
      | Some p \<Rightarrow>
          bind (broadcast Multiply y (vector_ufunc Subtract (p_max p) (p_min p))) (\<lambda>d.
          broadcast Add d (p_min p)))"

subsection \<open>NormalStandardizer\<close>

record normal_params =
  p_mean :: vector
  p_std :: vector

fun Normal_loop :: "kwargs \<Rightarrow> normal_params standardizer \<Rightarrow> py_error + normal_params standardizer" where
  "Normal_loop [] self = Inr self"
| "Normal_loop ((key, value) # items) self =
     (let data_mean = mean value; data_std = std value;
          self1 = self\<lparr>params := (params self)(key \<mapsto> \<lparr>p_mean = data_mean, p_std = data_std\<rparr>)\<rparr> in
      bind (broadcast Subtract (to_elem value) data_mean) (\<lambda>d.
      bind (broadcast True_divide d data_std) (\<lambda>nd.
      Normal_loop items (self1\<lparr>data := (data self1)(key \<mapsto> nd)\<rparr>))))"

definition Normal_init_normalization ::
  "normal_params standardizer \<Rightarrow> py_error + normal_params standardizer" where
  "Normal_init_normalization self =
     Normal_loop (data_to_stadnardize self) (self\<lparr>params := Map.empty\<rparr>)"

definition NormalStandardizer :: "kwargs \<Rightarrow> py_error + normal_params standardizer" where
  "NormalStandardizer kw = AbsStandardizer_init Normal_init_normalization kw"

definition Normal_normalize ::
  "normal_params standardizer \<Rightarrow> elem ndarray \<Rightarrow> string \<Rightarrow> py_error + elem ndarray" where
  "Normal_normalize self x key =
     (case params self key of
        None \<Rightarrow> Inl KeyError
      | Some p \<Rightarrow>
          bind (broadcast Subtract x (p_mean p)) (\<lambda>d.
          broadcast True_divide d (p_std p)))"

definition Normal_denormalize ::
  "normal_params standardizer \<Rightarrow> elem ndarray \<Rightarrow> string \<Rightarrow> py_error + elem ndarray" where
  "Normal_denormalize self y key =
     (case params self key of
        None \<Rightarrow> Inl KeyError
      | Some p \<Rightarrow>
          bind (broadcast Multiply y (p_std p)) (\<lambda>d.
          broadcast Add d (p_mean p)))"

subsection \<open>RobustStandardizer\<close>

record robust_params =
  p_q1 :: vector
  p_median :: vector
  p_q3 :: vector

fun Robust_loop :: "kwargs \<Rightarrow> robust_params standardizer \<Rightarrow> py_error + robust_params standardizer" where
  "Robust_loop [] self = Inr self"
| "Robust_loop ((key, value) # items) self =
     bind (quantile value 0.25) (\<lambda>data_q1.
     bind (quantile value 0.75) (\<lambda>data_q3.
     let data_median = median value;
         self1 = self\<lparr>params := (params self)(key \<mapsto>
                   \<lparr>p_q1 = data_q1, p_median = data_median, p_q3 = data_q3\<rparr>)\<rparr> in
     bind (broadcast Subtract (to_elem value) data_median) (\<lambda>d.
     bind (broadcast True_divide d (vector_ufunc Subtract data_q3 data_q1)) (\<lambda>nd.
     Robust_loop items (self1\<lparr>data := (data self1)(key \<mapsto> nd)\<rparr>)))))"

definition Robust_init_normalization ::
  "robust_params standardizer \<Rightarrow> py_error + robust_params standardizer" where
  "Robust_init_normalization self =
     Robust_loop (data_to_stadnardize self) (self\<lparr>params := Map.empty\<rparr>)"

definition RobustStandardizer :: "kwargs \<Rightarrow> py_error + robust_params standardizer" where
  "RobustStandardizer kw = AbsStandardizer_init Robust_init_normalization kw"

definition Robust_normalize ::
  "robust_params standardizer \<Rightarrow> elem ndarray \<Rightarrow> string \<Rightarrow> py_error + elem ndarray" where
  "Robust_normalize self x key =
     (case params self key of
        None \<Rightarrow> Inl KeyError
      | Some p \<Rightarrow>
          bind (broadcast Subtract x (p_median p)) (\<lambda>d.
          broadcast True_divide d (vector_ufunc Subtract (p_q3 p) (p_q1 p))))"

definition Robust_denormalize ::
  "robust_params standardizer \<Rightarrow> elem ndarray \<Rightarrow> string \<Rightarrow> py_error + elem ndarray" where
  "Robust_denormalize self y key =
     (case params self key of
        None \<Rightarrow> Inl KeyError
      | Some p \<Rightarrow>
          bind (broadcast Multiply y (vector_ufunc Subtract (p_q3 p) (p_q1 p))) (\<lambda>d.
          broadcast Add d (p_median p)))"

subsection \<open>NoneStandardizer\<close>

text \<open>
  \<open>normalize(self, *args)\<close> and \<open>denormalize(self, *args)\<close> take any number of positional
  arguments of any type and return \<open>args\<close>, the tuple of them.  The values that occur are
  arrays, strings (the keys) and tuples.  \<open>init_normalization\<close> sets \<open>_params\<close> to the
  empty dictionary and leaves \<open>data\<close> as the constructor made it.
\<close>

datatype py_value = Array "elem ndarray" | Str string | Tuple "py_value list"

definition None_init_normalization :: "unit standardizer \<Rightarrow> py_error + unit standardizer" where
  "None_init_normalization self = Inr (self\<lparr>params := Map.empty\<rparr>)"

definition NoneStandardizer :: "kwargs \<Rightarrow> py_error + unit standardizer" where
  "NoneStandardizer kw = AbsStandardizer_init None_init_normalization kw"

definition None_normalize :: "unit standardizer \<Rightarrow> py_value list \<Rightarrow> py_value" where
  "None_normalize self args = Tuple args"

definition None_denormalize :: "unit standardizer \<Rightarrow> py_value list \<Rightarrow> py_value" where
  "None_denormalize self args = Tuple args"

subsection \<open>Definitions used in the proofs\<close>

text \<open>
  The three fitting loops have one shape: for every item compute a parameter record and
  a normalized array (or raise), and store both under the key.  \<open>fit_loop\<close> is that shape
  with the computation as a parameter; \<open>normalized\<close> is the two broadcasts that
  \<open>normalize\<close> and \<open>denormalize\<close> chain.

  \<open>nonzero\<close> is the condition on a scale denominator under which the transforms are
  inverse.  \<open>fits d r\<close> says that the number \<open>r\<close> is in the range of the dtype \<open>d\<close>, so that
  storing it there does not change it, and \<open>exact_sub d r v\<close> that subtracting the vector
  \<open>v\<close> from the row \<open>r\<close> in the dtype \<open>d\<close> gives the differences themselves.  \<open>has_rows\<close>
  says that every registered array has a row, \<open>nondegenerate\<close> that in every column of
  an array the maximum is greater than the minimum, and \<open>range_fits\<close> that the range
  \<open>max - min\<close> of every column is in the range of the array's dtype.
\<close>

fun fit_loop ::
  "(real ndarray \<Rightarrow> py_error + 'p \<times> elem ndarray) \<Rightarrow> kwargs \<Rightarrow> 'p standardizer \<Rightarrow> py_error + 'p standardizer" where
  "fit_loop step [] self = Inr self"
| "fit_loop step ((key, value) # items) self =
     bind (step value) (\<lambda>(p, nd).
       fit_loop step items (self\<lparr>params := (params self)(key \<mapsto> p), data := (data self)(key \<mapsto> nd)\<rparr>))"

definition normalized :: "ufunc \<Rightarrow> ufunc \<Rightarrow> elem ndarray \<Rightarrow> vector \<Rightarrow> vector \<Rightarrow> py_error + elem ndarray" where
  "normalized f g x u v = bind (broadcast f x u) (\<lambda>d. broadcast g d v)"

definition MinMax_step :: "real ndarray \<Rightarrow> py_error + minmax_params \<times> elem ndarray" where
  "MinMax_step value =
     bind (amin value) (\<lambda>mn. bind (amax value) (\<lambda>mx.
     bind (normalized Subtract True_divide (to_elem value) mn (vector_ufunc Subtract mx mn)) (\<lambda>nd.
     Inr (\<lparr>p_min = mn, p_max = mx\<rparr>, nd))))"

definition Normal_step :: "real ndarray \<Rightarrow> py_error + normal_params \<times> elem ndarray" where
  "Normal_step value =
     bind (normalized Subtract True_divide (to_elem value) (mean value) (std value)) (\<lambda>nd.
     Inr (\<lparr>p_mean = mean value, p_std = std value\<rparr>, nd))"

definition Robust_step :: "real ndarray \<Rightarrow> py_error + robust_params \<times> elem ndarray" where
  "Robust_step value =
     bind (quantile value 0.25) (\<lambda>q1. bind (quantile value 0.75) (\<lambda>q3.
     bind (normalized Subtract True_divide (to_elem value) (median value) (vector_ufunc Subtract q3 q1)) (\<lambda>nd.
     Inr (\<lparr>p_q1 = q1, p_median = median value, p_q3 = q3\<rparr>, nd))))"



fun in_unit :: "elem \<Rightarrow> bool" where
  "in_unit (Fin v) = (0 \<le> v \<and> v \<le> 1)"
| "in_unit NonFinite = False"

fun fits :: "dtype \<Rightarrow> real \<Rightarrow> bool" where
  "fits Floating r = True"
| "fits (SInt n) r = (- (2 ^ n / 2) \<le> r \<and> r < 2 ^ n / 2)"
| "fits (UInt n) r = (0 \<le> r \<and> r < 2 ^ n)"


definition has_rows :: "kwargs \<Rightarrow> bool" where
  "has_rows kw = list_all (\<lambda>(key, value). rows value \<noteq> []) kw"

definition nondegenerate :: "real ndarray \<Rightarrow> bool" where
  "nondegenerate a = list_all (\<lambda>col. Min (set col) < Max (set col)) (columns a)"

definition range_fits :: "real ndarray \<Rightarrow> bool" where
  "range_fits a = list_all (\<lambda>col. fits (dtype a) (Max (set col) - Min (set col))) (columns a)"

subsection \<open>Examples\<close>

text \<open>
  \<open>ex_kw\<close> is the example of the specification, the key \<open>x\<close> with the rows [1,2], [3,4],
  [5,6] (integers, as written there), \<open>ex_minmax\<close> the object expected for it and
  \<open>ex_normalized\<close> its normalized array.  \<open>ex_small\<close> is a second integer array, \<open>ex_x\<close>
  a floating-point array and \<open>ex_xi\<close> an integer array to transform.  \<open>ex_int8\<close> is an array of 8-bit integers whose
  range \<open>100 - (- 100)\<close> is not an 8-bit integer, and \<open>ex_int64\<close> one of 64-bit integers
  whose range \<open>2 ^ 62 - (- 2 ^ 62)\<close> is not a 64-bit integer.
\<close>

definition ex_array :: "real ndarray" where
  "ex_array = \<lparr>dtype = SInt 64, ncols = 2, rows = [[1, 2], [3, 4], [5, 6]]\<rparr>"

definition ex_kw :: kwargs where
  "ex_kw = [(''x'', ex_array)]"

definition ex_normalized :: "elem ndarray" where
  "ex_normalized = \<lparr>dtype = Floating, ncols = 2,
     rows = [[Fin 0, Fin 0], [Fin (1 / 2), Fin (1 / 2)], [Fin 1, Fin 1]]\<rparr>"

definition ex_minmax :: "minmax_params standardizer" where
  "ex_minmax = \<lparr>data_to_stadnardize = ex_kw, data = [''x'' \<mapsto> ex_normalized],
     params = [''x'' \<mapsto> \<lparr>p_min = \<lparr>vdtype = SInt 64, vals = [Fin 1, Fin 2]\<rparr>,
                          p_max = \<lparr>vdtype = SInt 64, vals = [Fin 5, Fin 6]\<rparr>\<rparr>]\<rparr>"

definition ex_small :: "real ndarray" where
  "ex_small = \<lparr>dtype = SInt 64, ncols = 2, rows = [[1, 2], [3, 4]]\<rparr>"

definition ex_none :: "unit standardizer" where
  "ex_none = \<lparr>data_to_stadnardize = [(''x'', ex_small)], data = Map.empty, params = Map.empty\<rparr>"

definition ex_x :: "real ndarray" where
  "ex_x = \<lparr>dtype = Floating, ncols = 2, rows = [[7, - 1], [0, 3 / 2]]\<rparr>"


definition ex_int8 :: "real ndarray" where
  "ex_int8 = \<lparr>dtype = SInt 8, ncols = 1, rows = [[- 100], [100]]\<rparr>"

definition ex_int8_obj :: "minmax_params standardizer" where
  "ex_int8_obj = \<lparr>data_to_stadnardize = [(''x'', ex_int8)],
     data = [''x'' \<mapsto> \<lparr>dtype = Floating, ncols = 1, rows = [[Fin 0], [Fin 1]]\<rparr>],
     params = [''x'' \<mapsto> \<lparr>p_min = \<lparr>vdtype = SInt 8, vals = [Fin (- 100)]\<rparr>,
                          p_max = \<lparr>vdtype = SInt 8, vals = [Fin 100]\<rparr>\<rparr>]\<rparr>"

definition ex_int64 :: "real ndarray" where
  "ex_int64 = \<lparr>dtype = SInt 64, ncols = 1, rows = [[- (2 ^ 62)], [0], [2 ^ 62]]\<rparr>"

definition ex_int64_obj :: "minmax_params standardizer" where
  "ex_int64_obj = \<lparr>data_to_stadnardize = [(''x'', ex_int64)],
     data = [''x'' \<mapsto> \<lparr>dtype = Floating, ncols = 1, rows = [[Fin 0], [Fin (- 1 / 2)], [Fin 1]]\<rparr>],
     params = [''x'' \<mapsto> \<lparr>p_min = \<lparr>vdtype = SInt 64, vals = [Fin (- (2 ^ 62))]\<rparr>,
                          p_max = \<lparr>vdtype = SInt 64, vals = [Fin (2 ^ 62)]\<rparr>\<rparr>]\<rparr>"

subsection \<open>The statistics in the words of the specification\<close>

text \<open>
  The specification names the parameters of the Normal variant the column-wise mean and
  population standard deviation (ddof = 0), and those of the Robust variant the 25th,
  50th (median) and 75th percentile with linear interpolation between the data points.
  These definitions follow those words; the theorems compare them with what numpy
  computes: the percentile \<open>p\<close> of \<open>n\<close> sorted points sits at position
  \<open>p / 100 * (n - 1)\<close> and is interpolated between the points at the floor and at the
  ceiling of the position.
\<close>

definition population_mean :: "real list \<Rightarrow> real" where
  "population_mean col = (\<Sum>i<length col. col ! i) / real (length col)"

definition population_std :: "real list \<Rightarrow> real" where
  "population_std col =
     sqrt ((\<Sum>i<length col. (col ! i - population_mean col)\<^sup>2) / real (length col))"


section \<open>The fitting loops\<close>

lemma bind_Inr_iff: "bind m f = Inr y \<longleftrightarrow> (\<exists>x. m = Inr x \<and> f x = Inr y)"
  by (cases m) (simp_all add: bind_def)

lemma bind_Inr [simp]: "bind (Inr x) f = f x"
  by (simp add: bind_def)

lemma bind_Inl [simp]: "bind (Inl e) f = Inl e"
  by (simp add: bind_def)

lemma MinMax_loop_fit: "MinMax_loop items self = fit_loop MinMax_step items self"
proof (induction items arbitrary: self)
  case Nil
  show ?case by simp
next
  case (Cons kv items)
  obtain key v where kv: "kv = (key, v)" by (cases kv)
  show ?case
    unfolding kv
    by (simp add: MinMax_step_def normalized_def bind_def Cons.IH Let_def split: sum.splits)
qed

lemma fit_loop_kwargs:
  "fit_loop step items self = Inr obj \<Longrightarrow> data_to_stadnardize obj = data_to_stadnardize self"
proof (induction items arbitrary: self)
  case Nil
  then show ?case by simp
next
  case (Cons kv items)
  obtain key v where kv: "kv = (key, v)" by (cases kv)
  from Cons.prems obtain p nd where
    "fit_loop step items (self\<lparr>params := (params self)(key \<mapsto> p), data := (data self)(key \<mapsto> nd)\<rparr>) = Inr obj"
    by (auto simp: kv bind_Inr_iff)
  from Cons.IH [OF this] show ?case by simp
qed

lemma fit_loop_unregistered:
  "fit_loop step items self = Inr obj \<Longrightarrow> k \<notin> set (map fst items) \<Longrightarrow>
     params obj k = params self k \<and> data obj k = data self k"
proof (induction items arbitrary: self)
  case Nil
  then show ?case by simp
next
  case (Cons kv items)
  obtain key v where kv: "kv = (key, v)" by (cases kv)
  from Cons.prems(1) obtain p nd where
    rest: "fit_loop step items (self\<lparr>params := (params self)(key \<mapsto> p), data := (data self)(key \<mapsto> nd)\<rparr>) = Inr obj"
    by (auto simp: kv bind_Inr_iff)
  from Cons.prems(2) have "k \<noteq> key" "k \<notin> set (map fst items)" by (auto simp: kv)
  with Cons.IH [OF rest] show ?case by simp
qed

lemma fit_loop_registered:
  "fit_loop step items self = Inr obj \<Longrightarrow> distinct (map fst items) \<Longrightarrow> map_of items k = Some a \<Longrightarrow>
     \<exists>p nd. step a = Inr (p, nd) \<and> params obj k = Some p \<and> data obj k = Some nd"
proof (induction items arbitrary: self)
  case Nil
  then show ?case by simp
next
  case (Cons kv items)
  obtain key v where kv: "kv = (key, v)" by (cases kv)
  from Cons.prems(1) obtain p nd where
    step: "step v = Inr (p, nd)" and
    rest: "fit_loop step items (self\<lparr>params := (params self)(key \<mapsto> p), data := (data self)(key \<mapsto> nd)\<rparr>) = Inr obj"
    by (auto simp: kv bind_Inr_iff)
  show ?case
  proof (cases "k = key")
    case True
    with Cons.prems(3) have "a = v" by (simp add: kv)
    from Cons.prems(2) have "k \<notin> set (map fst items)" by (simp add: kv True)
    from fit_loop_unregistered [OF rest this] step show ?thesis by (simp add: True \<open>a = v\<close>)
  next
    case False
    with Cons.prems have "distinct (map fst items)" "map_of items k = Some a" by (simp_all add: kv)
    from Cons.IH [OF rest this] show ?thesis .
  qed
qed


lemma Normal_loop_fit: "Normal_loop items self = fit_loop Normal_step items self"
proof (induction items arbitrary: self)
  case Nil
  show ?case by simp
next
  case (Cons kv items)
  obtain key v where kv: "kv = (key, v)" by (cases kv)
  show ?case
    unfolding kv
    by (simp add: Normal_step_def normalized_def bind_def Cons.IH Let_def split: sum.splits)
qed

lemma Robust_loop_fit: "Robust_loop items self = fit_loop Robust_step items self"
proof (induction items arbitrary: self)
  case Nil
  show ?case by simp
next
  case (Cons kv items)
  obtain key v where kv: "kv = (key, v)" by (cases kv)
  show ?case
    unfolding kv
    by (simp add: Robust_step_def normalized_def bind_def Cons.IH Let_def split: sum.splits)
qed

lemma MinMax_ctor:
  "MinMaxStandardizer kw =
     fit_loop MinMax_step kw \<lparr>data_to_stadnardize = kw, data = Map.empty, params = Map.empty\<rparr>"
  by (simp add: MinMaxStandardizer_def AbsStandardizer_init_def MinMax_init_normalization_def
      MinMax_loop_fit)

lemma Normal_ctor:
  "NormalStandardizer kw =
     fit_loop Normal_step kw \<lparr>data_to_stadnardize = kw, data = Map.empty, params = Map.empty\<rparr>"
  by (simp add: NormalStandardizer_def AbsStandardizer_init_def Normal_init_normalization_def
      Normal_loop_fit)

lemma Robust_ctor:
  "RobustStandardizer kw =
     fit_loop Robust_step kw \<lparr>data_to_stadnardize = kw, data = Map.empty, params = Map.empty\<rparr>"
  by (simp add: RobustStandardizer_def AbsStandardizer_init_def Robust_init_normalization_def
      Robust_loop_fit)

lemma ctor_unregistered:
  assumes "fit_loop step kw \<lparr>data_to_stadnardize = kw, data = Map.empty, params = Map.empty\<rparr> = Inr obj"
    and "k \<notin> set (map fst kw)"
  shows "params obj k = None" and "data obj k = None"
  using fit_loop_unregistered [OF assms] by simp_all

lemma fit_loop_total:
  assumes "\<forall>(key, value) \<in> set items. \<exists>p nd. step value = Inr (p, nd)"
  shows "\<exists>obj. fit_loop step items self = Inr obj"
  using assms
proof (induction items arbitrary: self)
  case Nil
  show ?case by simp
next
  case (Cons kv items)
  obtain key v where kv: "kv = (key, v)" by (cases kv)
  from Cons.prems obtain p nd where step: "step v = Inr (p, nd)"
    by (auto simp: kv)
  from Cons.prems have "\<forall>(key, value) \<in> set items. \<exists>p nd. step value = Inr (p, nd)"
    by simp
  from Cons.IH [OF this] show ?case
    by (simp add: kv step)
qed

section \<open>Dtypes and broadcast arithmetic\<close>

lemma wrap_fits: "fits d r \<Longrightarrow> wrap d r = r"
proof (cases d)
  case Floating
  then show ?thesis by simp
next
  case (SInt n)
  assume "fits d r"
  then have "0 \<le> (r + 2 ^ n / 2) / 2 ^ n" "(r + 2 ^ n / 2) / 2 ^ n < 1"
    by (simp_all add: SInt field_simps)
  then have "\<lfloor>(r + 2 ^ n / 2) / 2 ^ n\<rfloor> = 0" by (intro floor_unique) simp_all
  then show ?thesis by (simp add: SInt wrap_signed_def)
next
  case (UInt n)
  assume "fits d r"
  then have "0 \<le> r / 2 ^ n" "r / 2 ^ n < 1"
    by (simp_all add: UInt field_simps)
  then have "\<lfloor>r / 2 ^ n\<rfloor> = 0" by (intro floor_unique) simp_all
  then show ?thesis by (simp add: UInt wrap_unsigned_def)
qed

lemma cast_fits: "fits d r \<Longrightarrow> cast d (Fin r) = Fin r"
  by (simp add: wrap_fits)

lemma cast_Floating [simp]: "cast Floating e = e"
  by (cases e) simp_all

lemma promote_types_Floating [simp]: "promote_types d Floating = Floating"
  by (cases d) simp_all

lemma promote_types_same [simp]: "promote_types d d = d"
  by (cases d) simp_all

lemma promote_types_absorb [simp]: "promote_types (promote_types e d) d = promote_types e d"
  by (cases e; cases d) auto

lemma fits_between:
  assumes "fits d hi" and "0 \<le> r" and "r \<le> hi"
  shows "fits d r"
  using assms by (cases d) auto

lemma length_columns [simp]: "length (columns a) = ncols a"
  by (simp add: columns_def)

lemma columns_nth:
  "j < ncols a \<Longrightarrow> columns a ! j = map (\<lambda>r. r ! j) (rows a)"
  by (simp add: columns_def)

lemma length_column: "col \<in> set (columns a) \<Longrightarrow> length col = length (rows a)"
  by (auto simp: columns_def)

lemma nonempty_column:
  assumes "rows a \<noteq> []" and "col \<in> set (columns a)"
  shows "col \<noteq> []"
  using length_column [OF assms(2)] assms(1) by auto

lemma map2_two_steps:
  "map2 G (map2 F r (map c cols)) (map s cols) = map2 (\<lambda>v col. G (F v (c col)) (s col)) r cols"
proof (induction r arbitrary: cols)
  case Nil
  show ?case by simp
next
  case (Cons v r)
  show ?case by (cases cols) (simp_all add: Cons.IH)
qed

lemma map2_same_map: "map2 F (map g cols) (map f cols) = map (\<lambda>col. F (g col) (f col)) cols"
  by (induction cols) simp_all

lemma vector_ufunc_columns:
  "vector_ufunc u \<lparr>vdtype = d, vals = map g cols\<rparr> \<lparr>vdtype = e, vals = map f cols\<rparr> =
     \<lparr>vdtype = result_type u d e,
      vals = map (\<lambda>col. ufunc_call u (result_type u d e) (g col) (f col)) cols\<rparr>"
  by (simp add: vector_ufunc_def Let_def map2_same_map)

lemma forward_columns:
  assumes "ncols x = length cols"
  shows "normalized Subtract True_divide x \<lparr>vdtype = dc, vals = map c cols\<rparr> \<lparr>vdtype = ds, vals = map s cols\<rparr> =
         Inr \<lparr>dtype = Floating, ncols = ncols x,
              rows = map (\<lambda>r. map2 (\<lambda>v col.
                el_div (cast (promote_types (dtype x) dc) (el_sub v (c col))) (s col)) r cols) (rows x)\<rparr>"
  using assms by (simp add: normalized_def broadcast_def Let_def map2_two_steps)

lemma backward_columns:
  assumes "ncols y = length cols"
  shows "normalized Multiply Add y \<lparr>vdtype = ds, vals = map s cols\<rparr> \<lparr>vdtype = dc, vals = map c cols\<rparr> =
         Inr \<lparr>dtype = promote_types (promote_types (dtype y) ds) dc, ncols = ncols y,
              rows = map (\<lambda>r. map2 (\<lambda>v col.
                cast (promote_types (promote_types (dtype y) ds) dc)
                  (el_add (cast (promote_types (dtype y) ds) (el_mul v (s col))) (c col))) r cols) (rows y)\<rparr>"
  using assms by (simp add: normalized_def broadcast_def Let_def map2_two_steps)



section \<open>What the constructors store\<close>

lemma MinMax_normalize_eq:
  "params self k = Some p \<Longrightarrow>
   MinMax_normalize self x k =
     normalized Subtract True_divide x (p_min p) (vector_ufunc Subtract (p_max p) (p_min p))"
  by (simp add: MinMax_normalize_def normalized_def)

lemma MinMax_denormalize_eq:
  "params self k = Some p \<Longrightarrow>
   MinMax_denormalize self y k =
     normalized Multiply Add y (vector_ufunc Subtract (p_max p) (p_min p)) (p_min p)"
  by (simp add: MinMax_denormalize_def normalized_def)

lemma Normal_normalize_eq:
  "params self k = Some p \<Longrightarrow>
   Normal_normalize self x k = normalized Subtract True_divide x (p_mean p) (p_std p)"
  by (simp add: Normal_normalize_def normalized_def)

lemma Normal_denormalize_eq:
  "params self k = Some p \<Longrightarrow>
   Normal_denormalize self y k = normalized Multiply Add y (p_std p) (p_mean p)"
  by (simp add: Normal_denormalize_def normalized_def)

lemma Robust_normalize_eq:
  "params self k = Some p \<Longrightarrow>
   Robust_normalize self x k =
     normalized Subtract True_divide x (p_median p) (vector_ufunc Subtract (p_q3 p) (p_q1 p))"
  by (simp add: Robust_normalize_def normalized_def)


lemma MinMax_step_Inr:
  assumes "MinMax_step a = Inr (p, nd)"
  shows "amin a = Inr (p_min p)" and "amax a = Inr (p_max p)"
    and "normalized Subtract True_divide (to_elem a) (p_min p)
           (vector_ufunc Subtract (p_max p) (p_min p)) = Inr nd"
  using assms by (auto simp: MinMax_step_def bind_Inr_iff)

lemma Normal_step_Inr:
  assumes "Normal_step a = Inr (p, nd)"
  shows "p_mean p = mean a" and "p_std p = std a"
    and "normalized Subtract True_divide (to_elem a) (p_mean p) (p_std p) = Inr nd"
  using assms by (auto simp: Normal_step_def bind_Inr_iff)

lemma Robust_step_Inr:
  assumes "Robust_step a = Inr (p, nd)"
  shows "quantile a 0.25 = Inr (p_q1 p)" and "quantile a 0.75 = Inr (p_q3 p)"
    and "p_median p = median a"
    and "normalized Subtract True_divide (to_elem a) (p_median p)
           (vector_ufunc Subtract (p_q3 p) (p_q1 p)) = Inr nd"
  using assms by (auto simp: Robust_step_def bind_Inr_iff)

lemma getitem_Some: "data self k = Some nd \<Longrightarrow> getitem self k = Inr nd"
  by (simp add: getitem_def)

lemma amin_Inr:
  "amin a = Inr mn \<Longrightarrow> mn = \<lparr>vdtype = dtype a, vals = map (\<lambda>col. Fin (Min (set col))) (columns a)\<rparr>"
  by (auto simp: amin_def split: if_splits)

lemma amax_Inr:
  "amax a = Inr mx \<Longrightarrow> mx = \<lparr>vdtype = dtype a, vals = map (\<lambda>col. Fin (Max (set col))) (columns a)\<rparr>"
  by (auto simp: amax_def split: if_splits)


subsection \<open>The constructors succeed on arrays that have rows\<close>

lemma MinMax_step_total: "rows a \<noteq> [] \<Longrightarrow> \<exists>p nd. MinMax_step a = Inr (p, nd)"
  by (simp add: MinMax_step_def amin_def amax_def vector_ufunc_columns forward_columns to_elem_def)

lemma Normal_step_total: "\<exists>p nd. Normal_step a = Inr (p, nd)"
  by (simp add: Normal_step_def mean_def std_def forward_columns to_elem_def)


lemma MinMax_total: "has_rows kw \<Longrightarrow> \<exists>self. MinMaxStandardizer kw = Inr self"
  unfolding MinMax_ctor
  using MinMax_step_total by (intro fit_loop_total) (auto simp: has_rows_def list_all_iff)

lemma Normal_total: "\<exists>self. NormalStandardizer kw = Inr self"
  unfolding Normal_ctor
  using Normal_step_total by (intro fit_loop_total) auto


subsection \<open>The parameters and the stored array of MinMaxStandardizer\<close>

lemma MinMax_scale:
  "vector_ufunc Subtract
     \<lparr>vdtype = d, vals = map (\<lambda>col. Fin (Max (set col))) cols\<rparr>
     \<lparr>vdtype = d, vals = map (\<lambda>col. Fin (Min (set col))) cols\<rparr> =
   \<lparr>vdtype = d, vals = map (\<lambda>col. Fin (wrap d (Max (set col) - Min (set col)))) cols\<rparr>"
  by (simp add: vector_ufunc_columns)

lemma MinMax_registered:
  assumes "MinMaxStandardizer kw = Inr self" "distinct (map fst kw)" "map_of kw k = Some a"
  shows "params self k = Some
           \<lparr>p_min = \<lparr>vdtype = dtype a, vals = map (\<lambda>col. Fin (Min (set col))) (columns a)\<rparr>,
            p_max = \<lparr>vdtype = dtype a, vals = map (\<lambda>col. Fin (Max (set col))) (columns a)\<rparr>\<rparr>"
    and "data self k = Some \<lparr>dtype = Floating, ncols = ncols a, rows = map (\<lambda>r. map2 (\<lambda>v col.
            el_div (cast (dtype a) (el_sub v (Fin (Min (set col)))))
                   (Fin (wrap (dtype a) (Max (set col) - Min (set col)))))
            r (columns a)) (map (map Fin) (rows a))\<rparr>"
proof -
  from fit_loop_registered [OF assms(1) [unfolded MinMax_ctor] assms(2,3)]
  obtain p nd where step: "MinMax_step a = Inr (p, nd)"
    and p: "params self k = Some p" and nd: "data self k = Some nd"
    by blast
  have mn: "p_min p = \<lparr>vdtype = dtype a, vals = map (\<lambda>col. Fin (Min (set col))) (columns a)\<rparr>"
    using MinMax_step_Inr(1) [OF step] by (rule amin_Inr)
  have mx: "p_max p = \<lparr>vdtype = dtype a, vals = map (\<lambda>col. Fin (Max (set col))) (columns a)\<rparr>"
    using MinMax_step_Inr(2) [OF step] by (rule amax_Inr)
  show "params self k = Some
           \<lparr>p_min = \<lparr>vdtype = dtype a, vals = map (\<lambda>col. Fin (Min (set col))) (columns a)\<rparr>,
            p_max = \<lparr>vdtype = dtype a, vals = map (\<lambda>col. Fin (Max (set col))) (columns a)\<rparr>\<rparr>"
    using p mn mx by simp
  have "normalized Subtract True_divide (to_elem a)
          \<lparr>vdtype = dtype a, vals = map (\<lambda>col. Fin (Min (set col))) (columns a)\<rparr>
          \<lparr>vdtype = dtype a, vals = map (\<lambda>col. Fin (wrap (dtype a) (Max (set col) - Min (set col)))) (columns a)\<rparr>
        = Inr nd"
    using MinMax_step_Inr(3) [OF step] by (simp add: mn mx MinMax_scale)
  then show "data self k = Some \<lparr>dtype = Floating, ncols = ncols a, rows = map (\<lambda>r. map2 (\<lambda>v col.
            el_div (cast (dtype a) (el_sub v (Fin (Min (set col)))))
                   (Fin (wrap (dtype a) (Max (set col) - Min (set col)))))
            r (columns a)) (map (map Fin) (rows a))\<rparr>"
    using nd by (simp add: forward_columns to_elem_def)
qed

lemma MinMax_transforms:
  assumes "MinMaxStandardizer kw = Inr self" "distinct (map fst kw)" "map_of kw k = Some a"
    and "ncols x = ncols a"
  shows "MinMax_normalize self x k = Inr \<lparr>dtype = Floating, ncols = ncols x,
           rows = map (\<lambda>r. map2 (\<lambda>v col.
             el_div (cast (promote_types (dtype x) (dtype a)) (el_sub v (Fin (Min (set col)))))
                    (Fin (wrap (dtype a) (Max (set col) - Min (set col)))))
             r (columns a)) (rows x)\<rparr>"
    and "MinMax_denormalize self x k = Inr \<lparr>dtype = promote_types (dtype x) (dtype a), ncols = ncols x,
           rows = map (\<lambda>r. map2 (\<lambda>v col.
             cast (promote_types (dtype x) (dtype a))
               (el_add (cast (promote_types (dtype x) (dtype a))
                          (el_mul v (Fin (wrap (dtype a) (Max (set col) - Min (set col))))))
                       (Fin (Min (set col)))))
             r (columns a)) (rows x)\<rparr>"
  using MinMax_registered(1) [OF assms(1-3)] assms(4)
  by (simp_all add: MinMax_normalize_eq MinMax_denormalize_eq MinMax_scale forward_columns backward_columns)

subsection \<open>The examples, evaluated\<close>

lemmas ctor_eval = AbsStandardizer_init_def Let_def bind_def broadcast_def vector_ufunc_def
  to_elem_def columns_def upt_rec wrap_signed_def ex_kw_def ex_array_def ex_small_def

lemma ex_MinMax:
  "MinMaxStandardizer [(''x'', ex_small)] = Inr \<lparr>data_to_stadnardize = [(''x'', ex_small)],
     data = [''x'' \<mapsto> \<lparr>dtype = Floating, ncols = 2, rows = [[Fin 0, Fin 0], [Fin 1, Fin 1]]\<rparr>],
     params = [''x'' \<mapsto> \<lparr>p_min = \<lparr>vdtype = SInt 64, vals = [Fin 1, Fin 2]\<rparr>,
                          p_max = \<lparr>vdtype = SInt 64, vals = [Fin 3, Fin 4]\<rparr>\<rparr>]\<rparr>"
  by (simp add: MinMaxStandardizer_def MinMax_init_normalization_def amin_def amax_def ctor_eval)

lemma ex_Normal:
  "NormalStandardizer [(''x'', ex_small)] = Inr \<lparr>data_to_stadnardize = [(''x'', ex_small)],
     data = [''x'' \<mapsto> \<lparr>dtype = Floating, ncols = 2, rows = [[Fin (-1), Fin (-1)], [Fin 1, Fin 1]]\<rparr>],
     params = [''x'' \<mapsto> \<lparr>p_mean = \<lparr>vdtype = Floating, vals = [Fin 2, Fin 3]\<rparr>,
                          p_std = \<lparr>vdtype = Floating, vals = [Fin 1, Fin 1]\<rparr>\<rparr>]\<rparr>"
  by (simp add: NormalStandardizer_def Normal_init_normalization_def mean_def std_def
      col_mean_def col_std_def ctor_eval)

lemma ex_Robust:
  "RobustStandardizer [(''x'', ex_small)] = Inr \<lparr>data_to_stadnardize = [(''x'', ex_small)],
     data = [''x'' \<mapsto> \<lparr>dtype = Floating, ncols = 2, rows = [[Fin (-1), Fin (-1)], [Fin 1, Fin 1]]\<rparr>],
     params = [''x'' \<mapsto> \<lparr>p_q1 = \<lparr>vdtype = Floating, vals = [Fin (3/2), Fin (5/2)]\<rparr>,
                          p_median = \<lparr>vdtype = Floating, vals = [Fin 2, Fin 3]\<rparr>,
                          p_q3 = \<lparr>vdtype = Floating, vals = [Fin (5/2), Fin (7/2)]\<rparr>\<rparr>]\<rparr>"
  by (simp add: RobustStandardizer_def Robust_init_normalization_def quantile_def median_def
      col_quantile_def col_median_def ctor_eval)

lemma ex_None:
  "NoneStandardizer kw = Inr \<lparr>data_to_stadnardize = kw, data = Map.empty, params = Map.empty\<rparr>"
  by (simp add: NoneStandardizer_def AbsStandardizer_init_def None_init_normalization_def)

lemma ex_none_ctor: "NoneStandardizer [(''x'', ex_small)] = Inr ex_none"
  by (simp add: ex_None ex_none_def)

lemma ex_MinMax_spec: "MinMaxStandardizer ex_kw = Inr ex_minmax"
  by (simp add: MinMaxStandardizer_def MinMax_init_normalization_def amin_def amax_def ctor_eval
      ex_minmax_def ex_normalized_def)

lemma ex_minmax_normalize: "MinMax_normalize ex_minmax (to_elem ex_array) ''x'' = Inr ex_normalized"
  by (simp add: MinMax_normalize_def ex_minmax_def ex_normalized_def ctor_eval)

lemma ex_int8_ctor: "MinMaxStandardizer [(''x'', ex_int8)] = Inr ex_int8_obj"
  by (simp add: MinMaxStandardizer_def MinMax_init_normalization_def amin_def amax_def ctor_eval
      ex_int8_def ex_int8_obj_def)

lemma ex_int64_ctor: "MinMaxStandardizer [(''x'', ex_int64)] = Inr ex_int64_obj"
  by (simp add: MinMaxStandardizer_def MinMax_init_normalization_def amin_def amax_def ctor_eval
      ex_int64_def ex_int64_obj_def)

section \<open>Unknown keys\<close>

lemma MinMax_unknown:
  assumes "MinMaxStandardizer kw = Inr self" and "key \<notin> set (map fst kw)"
  shows "MinMax_normalize self x key = Inl KeyError" and "MinMax_denormalize self x key = Inl KeyError"
  using ctor_unregistered(1) [OF assms(1) [unfolded MinMax_ctor] assms(2)]
  by (simp_all add: MinMax_normalize_def MinMax_denormalize_def)

lemma Normal_unknown:
  assumes "NormalStandardizer kw = Inr self" and "key \<notin> set (map fst kw)"
  shows "Normal_normalize self x key = Inl KeyError" and "Normal_denormalize self x key = Inl KeyError"
  using ctor_unregistered(1) [OF assms(1) [unfolded Normal_ctor] assms(2)]
  by (simp_all add: Normal_normalize_def Normal_denormalize_def)

lemma Robust_unknown:
  assumes "RobustStandardizer kw = Inr self" and "key \<notin> set (map fst kw)"
  shows "Robust_normalize self x key = Inl KeyError" and "Robust_denormalize self x key = Inl KeyError"
  using ctor_unregistered(1) [OF assms(1) [unfolded Robust_ctor] assms(2)]
  by (simp_all add: Robust_normalize_def Robust_denormalize_def)

text \<open>
  C3: for the MinMax, Normal and Robust variants, \<open>normalize\<close> and \<open>denormalize\<close> with a
  key that was not supplied at construction raise KeyError; the Identity variant does not
  look at the key and returns its arguments.
\<close>

theorem unknown_key:
  "key \<notin> set (map fst kw) \<longrightarrow>
     (MinMaxStandardizer kw = Inr m \<longrightarrow>
        MinMax_normalize m x key = Inl KeyError \<and> MinMax_denormalize m x key = Inl KeyError) \<and>
     (NormalStandardizer kw = Inr n \<longrightarrow>
        Normal_normalize n x key = Inl KeyError \<and> Normal_denormalize n x key = Inl KeyError) \<and>
     (RobustStandardizer kw = Inr r \<longrightarrow>
        Robust_normalize r x key = Inl KeyError \<and> Robust_denormalize r x key = Inl KeyError) \<and>
     (NoneStandardizer kw = Inr i \<longrightarrow>
        None_normalize i [Array x, Str key] = Tuple [Array x, Str key] \<and>
        None_denormalize i [Array x, Str key] = Tuple [Array x, Str key])"
  by (simp add: MinMax_unknown Normal_unknown Robust_unknown None_normalize_def None_denormalize_def)

theorem unknown_key_witness:
  "''missing'' \<notin> set (map fst [(''x'', ex_small)]) \<and>
   (\<exists>m. MinMaxStandardizer [(''x'', ex_small)] = Inr m \<and>
        MinMax_normalize m (to_elem ex_small) ''missing'' = Inl KeyError \<and>
        MinMax_denormalize m (to_elem ex_small) ''missing'' = Inl KeyError) \<and>
   (\<exists>n. NormalStandardizer [(''x'', ex_small)] = Inr n \<and>
        Normal_normalize n (to_elem ex_small) ''missing'' = Inl KeyError \<and>
        Normal_denormalize n (to_elem ex_small) ''missing'' = Inl KeyError) \<and>
   (\<exists>r. RobustStandardizer [(''x'', ex_small)] = Inr r \<and>
        Robust_normalize r (to_elem ex_small) ''missing'' = Inl KeyError \<and>
        Robust_denormalize r (to_elem ex_small) ''missing'' = Inl KeyError) \<and>
   (\<exists>i. NoneStandardizer [(''x'', ex_small)] = Inr i \<and>
        None_normalize i [Array (to_elem ex_small), Str ''missing'']
          = Tuple [Array (to_elem ex_small), Str ''missing''])"
proof -
  have key: "''missing'' \<notin> set (map fst [(''x'', ex_small)])" by simp
  obtain m n r i where obj:
    "MinMaxStandardizer [(''x'', ex_small)] = Inr m"
    "NormalStandardizer [(''x'', ex_small)] = Inr n"
    "RobustStandardizer [(''x'', ex_small)] = Inr r"
    "NoneStandardizer [(''x'', ex_small)] = Inr i"
    using ex_MinMax ex_Normal ex_Robust ex_None by blast
  from unknown_key [of "''missing''" "[(''x'', ex_small)]" m "to_elem ex_small" n r i] key obj
  show ?thesis by simp
qed

section \<open>Lookup of the stored arrays\<close>

lemma MinMax_lookup:
  assumes "MinMaxStandardizer kw = Inr self" "distinct (map fst kw)" "map_of kw k = Some a"
  shows "\<exists>y. getitem self k = Inr y \<and> MinMax_normalize self (to_elem a) k = Inr y"
proof -
  from fit_loop_registered [OF assms(1) [unfolded MinMax_ctor] assms(2,3)]
  obtain p nd where "MinMax_step a = Inr (p, nd)" "params self k = Some p" "data self k = Some nd"
    by blast
  then show ?thesis
    by (simp add: getitem_Some MinMax_normalize_eq MinMax_step_Inr(3))
qed

lemma Normal_lookup:
  assumes "NormalStandardizer kw = Inr self" "distinct (map fst kw)" "map_of kw k = Some a"
  shows "\<exists>y. getitem self k = Inr y \<and> Normal_normalize self (to_elem a) k = Inr y"
proof -
  from fit_loop_registered [OF assms(1) [unfolded Normal_ctor] assms(2,3)]
  obtain p nd where "Normal_step a = Inr (p, nd)" "params self k = Some p" "data self k = Some nd"
    by blast
  then show ?thesis
    by (simp add: getitem_Some Normal_normalize_eq Normal_step_Inr(3))
qed

lemma Robust_lookup:
  assumes "RobustStandardizer kw = Inr self" "distinct (map fst kw)" "map_of kw k = Some a"
  shows "\<exists>y. getitem self k = Inr y \<and> Robust_normalize self (to_elem a) k = Inr y"
proof -
  from fit_loop_registered [OF assms(1) [unfolded Robust_ctor] assms(2,3)]
  obtain p nd where "Robust_step a = Inr (p, nd)" "params self k = Some p" "data self k = Some nd"
    by blast
  then show ?thesis
    by (simp add: getitem_Some Robust_normalize_eq Robust_step_Inr(4))
qed

text \<open>
  C6, as the code has it: for the MinMax, Normal and Robust variants and every key \<open>k\<close>
  supplied at construction with array \<open>a\<close>, lookup of \<open>k\<close> succeeds and returns what
  \<open>normalize(a, k)\<close> returns.
\<close>

theorem lookup_is_normalize_of_original:
  "distinct (map fst kw) \<and> map_of kw k = Some a \<longrightarrow>
     (MinMaxStandardizer kw = Inr m \<longrightarrow>
        (\<exists>y. getitem m k = Inr y \<and> MinMax_normalize m (to_elem a) k = Inr y)) \<and>
     (NormalStandardizer kw = Inr n \<longrightarrow>
        (\<exists>y. getitem n k = Inr y \<and> Normal_normalize n (to_elem a) k = Inr y)) \<and>
     (RobustStandardizer kw = Inr r \<longrightarrow>
        (\<exists>y. getitem r k = Inr y \<and> Robust_normalize r (to_elem a) k = Inr y))"
  using MinMax_lookup Normal_lookup Robust_lookup by blast

theorem lookup_is_normalize_of_original_witness:
  "distinct (map fst [(''x'', ex_small)]) \<and> map_of [(''x'', ex_small)] ''x'' = Some ex_small \<and>
   (\<exists>m y. MinMaxStandardizer [(''x'', ex_small)] = Inr m \<and>
      getitem m ''x'' = Inr y \<and> MinMax_normalize m (to_elem ex_small) ''x'' = Inr y) \<and>
   (\<exists>n y. NormalStandardizer [(''x'', ex_small)] = Inr n \<and>
      getitem n ''x'' = Inr y \<and> Normal_normalize n (to_elem ex_small) ''x'' = Inr y) \<and>
   (\<exists>r y. RobustStandardizer [(''x'', ex_small)] = Inr r \<and>
      getitem r ''x'' = Inr y \<and> Robust_normalize r (to_elem ex_small) ''x'' = Inr y)"
proof -
  have reg: "distinct (map fst [(''x'', ex_small)]) \<and> map_of [(''x'', ex_small)] ''x'' = Some ex_small"
    by simp
  obtain m n r where obj:
    "MinMaxStandardizer [(''x'', ex_small)] = Inr m"
    "NormalStandardizer [(''x'', ex_small)] = Inr n"
    "RobustStandardizer [(''x'', ex_small)] = Inr r"
    using ex_MinMax ex_Normal ex_Robust by blast
  from lookup_is_normalize_of_original [of "[(''x'', ex_small)]" "''x''" ex_small m n r] reg obj
  show ?thesis by simp
qed

text \<open>
  C6 as stated includes the Identity variant, where it fails: for the object built from
  \<open>x = [[1, 2], [3, 4]]\<close> the lookup of \<open>x\<close> raises KeyError, while \<open>normalize(a, "x")\<close>
  returns the tuple \<open>(a, "x")\<close>.
\<close>

theorem None_lookup_differs_from_normalize:
  "NoneStandardizer [(''x'', ex_small)] = Inr ex_none \<and>
   getitem ex_none ''x'' = Inl KeyError \<and>
   None_normalize ex_none [Array (to_elem ex_small), Str ''x'']
     = Tuple [Array (to_elem ex_small), Str ''x'']"
  by (simp add: ex_None ex_none_def getitem_def None_normalize_def)

section \<open>Properties of MinMaxStandardizer\<close>

text \<open>
  C2 as stated fails in exact arithmetic on integer arrays: for the 8-bit integers
  [[-100], [100]] the scale \<open>max - min\<close> is computed in 8 bits and is -56, so
  \<open>normalize([[0]], "x")\<close> is \<open>100 / (- 56)\<close> and not \<open>(0 - (- 100)) / (100 - (- 100))\<close>.
\<close>

theorem MinMax_normalize_wraps_int8:
  "MinMaxStandardizer [(''x'', ex_int8)] = Inr ex_int8_obj \<and>
   MinMax_normalize ex_int8_obj \<lparr>dtype = SInt 8, ncols = 1, rows = [[Fin 0]]\<rparr> ''x''
     = Inr \<lparr>dtype = Floating, ncols = 1, rows = [[Fin (- 25 / 14)]]\<rparr> \<and>
   (0 - (- 100)) / (100 - (- 100)) = (1 / 2 :: real)"
  using ex_int8_ctor
  by (simp add: MinMax_normalize_def ex_int8_obj_def ctor_eval)

text \<open>
  C2, as the code has it: for the MinMax variant, construction succeeds when every
  registered array has a row, and the parameters of a key are the column-wise minimum and
  maximum of its array, in the dtype of the array.  \<open>normalize(x, key)\<close> is
  \<open>(x - min) / (max - min)\<close> and \<open>denormalize(y, key)\<close> is \<open>y * (max - min) + min\<close> element
  by element, where each subtraction, multiplication and addition is numpy's, in the
  promoted dtype of its operands: its result is stored in that dtype, which leaves it
  unchanged for floating-point operands and whenever it is in the range of the dtype.
  For the key \<open>x\<close> with rows [1,2], [3,4], [5,6] the parameters are min = [1,2] and
  max = [5,6], and the normalized rows 0 and 2 are [0,0] and [1,1].
\<close>

theorem MinMax_formulas:
  "(distinct (map fst kw) \<and> has_rows kw \<and> map_of kw k = Some a \<longrightarrow>
      (\<exists>self. MinMaxStandardizer kw = Inr self \<and>
         params self k = Some
           \<lparr>p_min = \<lparr>vdtype = dtype a, vals = map (\<lambda>col. Fin (Min (set col))) (columns a)\<rparr>,
            p_max = \<lparr>vdtype = dtype a, vals = map (\<lambda>col. Fin (Max (set col))) (columns a)\<rparr>\<rparr> \<and>
         (ncols x = ncols a \<longrightarrow>
            MinMax_normalize self x k = Inr \<lparr>dtype = Floating, ncols = ncols x,
              rows = map (\<lambda>r. map2 (\<lambda>v col.
                el_div (cast (promote_types (dtype x) (dtype a)) (el_sub v (Fin (Min (set col)))))
                       (cast (dtype a) (Fin (Max (set col) - Min (set col)))))
                r (columns a)) (rows x)\<rparr> \<and>
            MinMax_denormalize self x k = Inr \<lparr>dtype = promote_types (dtype x) (dtype a), ncols = ncols x,
              rows = map (\<lambda>r. map2 (\<lambda>v col.
                cast (promote_types (dtype x) (dtype a))
                  (el_add (cast (promote_types (dtype x) (dtype a))
                             (el_mul v (cast (dtype a) (Fin (Max (set col) - Min (set col))))))
                          (Fin (Min (set col)))))
                r (columns a)) (rows x)\<rparr>))) \<and>
   (fits d r \<longrightarrow> cast d (Fin r) = Fin r) \<and> cast Floating e = e \<and>
   MinMaxStandardizer ex_kw = Inr ex_minmax \<and>
   params ex_minmax ''x'' = Some \<lparr>p_min = \<lparr>vdtype = SInt 64, vals = [Fin 1, Fin 2]\<rparr>,
                                   p_max = \<lparr>vdtype = SInt 64, vals = [Fin 5, Fin 6]\<rparr>\<rparr> \<and>
   getitem ex_minmax ''x'' = Inr ex_normalized \<and>
   MinMax_normalize ex_minmax (to_elem ex_array) ''x'' = Inr ex_normalized \<and>
   rows ex_normalized ! 0 = [Fin 0, Fin 0] \<and> rows ex_normalized ! 2 = [Fin 1, Fin 1]"
proof -
  have "rows ex_normalized ! 0 = [Fin 0, Fin 0]" "rows ex_normalized ! 2 = [Fin 1, Fin 1]"
    by (simp_all add: ex_normalized_def)
  moreover have "params ex_minmax ''x'' = Some \<lparr>p_min = \<lparr>vdtype = SInt 64, vals = [Fin 1, Fin 2]\<rparr>,
                                   p_max = \<lparr>vdtype = SInt 64, vals = [Fin 5, Fin 6]\<rparr>\<rparr>"
    "getitem ex_minmax ''x'' = Inr ex_normalized"
    by (simp_all add: ex_minmax_def getitem_def)
  moreover have "\<exists>self. MinMaxStandardizer kw = Inr self \<and>
         params self k = Some
           \<lparr>p_min = \<lparr>vdtype = dtype a, vals = map (\<lambda>col. Fin (Min (set col))) (columns a)\<rparr>,
            p_max = \<lparr>vdtype = dtype a, vals = map (\<lambda>col. Fin (Max (set col))) (columns a)\<rparr>\<rparr> \<and>
         (ncols x = ncols a \<longrightarrow>
            MinMax_normalize self x k = Inr \<lparr>dtype = Floating, ncols = ncols x,
              rows = map (\<lambda>r. map2 (\<lambda>v col.
                el_div (cast (promote_types (dtype x) (dtype a)) (el_sub v (Fin (Min (set col)))))
                       (cast (dtype a) (Fin (Max (set col) - Min (set col)))))
                r (columns a)) (rows x)\<rparr> \<and>
            MinMax_denormalize self x k = Inr \<lparr>dtype = promote_types (dtype x) (dtype a), ncols = ncols x,
              rows = map (\<lambda>r. map2 (\<lambda>v col.
                cast (promote_types (dtype x) (dtype a))
                  (el_add (cast (promote_types (dtype x) (dtype a))
                             (el_mul v (cast (dtype a) (Fin (Max (set col) - Min (set col))))))
                          (Fin (Min (set col)))))
                r (columns a)) (rows x)\<rparr>)"
    if "distinct (map fst kw)" "has_rows kw" "map_of kw k = Some a"
  proof -
    from MinMax_total [OF that(2)] obtain self where self: "MinMaxStandardizer kw = Inr self"
      by blast
    from MinMax_registered(1) [OF self that(1,3)] MinMax_transforms [OF self that(1,3)] self
    show ?thesis by auto
  qed
  ultimately show ?thesis
    using ex_MinMax_spec ex_minmax_normalize cast_fits [of d r] cast_Floating [of e] by blast
qed

theorem MinMax_formulas_witness:
  "distinct (map fst ex_kw) \<and> has_rows ex_kw \<and> map_of ex_kw ''x'' = Some ex_array \<and>
   ncols (to_elem ex_array) = ncols ex_array \<and> fits (SInt 64) 4 \<and>
   cast (SInt 64) (Fin 4) = Fin 4 \<and>
   (\<exists>self. MinMaxStandardizer ex_kw = Inr self \<and>
      params self ''x'' = Some \<lparr>p_min = \<lparr>vdtype = SInt 64, vals = [Fin 1, Fin 2]\<rparr>,
                                p_max = \<lparr>vdtype = SInt 64, vals = [Fin 5, Fin 6]\<rparr>\<rparr> \<and>
      MinMax_normalize self (to_elem ex_array) ''x'' =
        Inr \<lparr>dtype = Floating, ncols = 2,
             rows = [[Fin 0, Fin 0], [Fin (1 / 2), Fin (1 / 2)], [Fin 1, Fin 1]]\<rparr> \<and>
      MinMax_denormalize self (to_elem ex_array) ''x'' =
        Inr \<lparr>dtype = SInt 64, ncols = 2,
             rows = [[Fin 5, Fin 10], [Fin 13, Fin 18], [Fin 21, Fin 26]]\<rparr>)"
proof -
  have hyp: "distinct (map fst ex_kw) \<and> has_rows ex_kw \<and> map_of ex_kw ''x'' = Some ex_array"
    and cols: "ncols (to_elem ex_array) = ncols ex_array"
    and fits: "fits (SInt 64) 4"
    by (simp_all add: ex_kw_def ex_array_def to_elem_def has_rows_def)
  from MinMax_formulas [of ex_kw "''x''" ex_array "to_elem ex_array" "SInt 64" 4] hyp cols fits
  obtain self where self: "MinMaxStandardizer ex_kw = Inr self"
    and "params self ''x'' = Some
           \<lparr>p_min = \<lparr>vdtype = dtype ex_array, vals = map (\<lambda>col. Fin (Min (set col))) (columns ex_array)\<rparr>,
            p_max = \<lparr>vdtype = dtype ex_array, vals = map (\<lambda>col. Fin (Max (set col))) (columns ex_array)\<rparr>\<rparr>"
    and "MinMax_normalize self (to_elem ex_array) ''x'' = Inr \<lparr>dtype = Floating, ncols = ncols (to_elem ex_array),
              rows = map (\<lambda>r. map2 (\<lambda>v col.
                el_div (cast (promote_types (dtype (to_elem ex_array)) (dtype ex_array)) (el_sub v (Fin (Min (set col)))))
                       (cast (dtype ex_array) (Fin (Max (set col) - Min (set col)))))
                r (columns ex_array)) (rows (to_elem ex_array))\<rparr>"
    and "MinMax_denormalize self (to_elem ex_array) ''x'' =
            Inr \<lparr>dtype = promote_types (dtype (to_elem ex_array)) (dtype ex_array), ncols = ncols (to_elem ex_array),
              rows = map (\<lambda>r. map2 (\<lambda>v col.
                cast (promote_types (dtype (to_elem ex_array)) (dtype ex_array))
                  (el_add (cast (promote_types (dtype (to_elem ex_array)) (dtype ex_array))
                             (el_mul v (cast (dtype ex_array) (Fin (Max (set col) - Min (set col))))))
                          (Fin (Min (set col)))))
                r (columns ex_array)) (rows (to_elem ex_array))\<rparr>"
    and cast: "cast (SInt 64) (Fin 4) = Fin 4"
    by blast
  then have "params self ''x'' = Some \<lparr>p_min = \<lparr>vdtype = SInt 64, vals = [Fin 1, Fin 2]\<rparr>,
                                p_max = \<lparr>vdtype = SInt 64, vals = [Fin 5, Fin 6]\<rparr>\<rparr>"
    and "MinMax_normalize self (to_elem ex_array) ''x'' =
        Inr \<lparr>dtype = Floating, ncols = 2,
             rows = [[Fin 0, Fin 0], [Fin (1 / 2), Fin (1 / 2)], [Fin 1, Fin 1]]\<rparr>"
    and "MinMax_denormalize self (to_elem ex_array) ''x'' =
        Inr \<lparr>dtype = SInt 64, ncols = 2,
             rows = [[Fin 5, Fin 10], [Fin 13, Fin 18], [Fin 21, Fin 26]]\<rparr>"
    by (simp_all add: ex_array_def columns_def upt_rec to_elem_def wrap_signed_def)
  with self hyp cols fits cast show ?thesis by blast
qed

lemma scaled_in_unit:
  fixes v :: real
  assumes "v \<in> set col" and "Min (set col) < Max (set col)"
    and "fits d (Max (set col) - Min (set col))"
  shows "in_unit (el_div (cast d (el_sub (Fin v) (Fin (Min (set col)))))
                         (Fin (wrap d (Max (set col) - Min (set col)))))"
proof -
  have bounds: "Min (set col) \<le> v" "v \<le> Max (set col)"
    using assms(1) by simp_all
  then have "fits d (v - Min (set col))"
    by (intro fits_between [OF assms(3)]) simp_all
  then have "cast d (el_sub (Fin v) (Fin (Min (set col)))) = Fin (v - Min (set col))"
    by (simp add: wrap_fits)
  with bounds assms(2) show ?thesis
    by (simp add: wrap_fits [OF assms(3)] divide_le_eq)
qed

lemma row_in_unit:
  assumes "r \<in> set (rows a)" and "length r = ncols a"
    and "nondegenerate a" and "range_fits a"
  shows "list_all in_unit (map2 (\<lambda>v col.
            el_div (cast (dtype a) (el_sub v (Fin (Min (set col)))))
                   (Fin (wrap (dtype a) (Max (set col) - Min (set col)))))
            (map Fin r) (columns a))"
  unfolding list_all_length
proof (intro allI impI)
  fix j
  assume "j < length (map2 (\<lambda>v col.
            el_div (cast (dtype a) (el_sub v (Fin (Min (set col)))))
                   (Fin (wrap (dtype a) (Max (set col) - Min (set col)))))
            (map Fin r) (columns a))"
  then have j: "j < ncols a" by simp
  have col: "columns a ! j = map (\<lambda>r. r ! j) (rows a)"
    using j by (rule columns_nth)
  have mem: "r ! j \<in> set (columns a ! j)"
    using assms(1) by (simp add: col)
  have "Min (set (columns a ! j)) < Max (set (columns a ! j))"
    using assms(3) j by (simp add: nondegenerate_def list_all_length)
  moreover have "fits (dtype a) (Max (set (columns a ! j)) - Min (set (columns a ! j)))"
    using assms(4) j by (simp add: range_fits_def list_all_length)
  ultimately show "in_unit (map2 (\<lambda>v col.
            el_div (cast (dtype a) (el_sub v (Fin (Min (set col)))))
                   (Fin (wrap (dtype a) (Max (set col) - Min (set col)))))
            (map Fin r) (columns a) ! j)"
    using scaled_in_unit [OF mem] j assms(2) by simp
qed

text \<open>
  C8 as stated fails on integer arrays: the 64-bit integers [[-2^62], [0], [2^62]] have
  no degenerate column, but the range \<open>max - min = 2^63\<close> is computed in 64 bits and is
  \<open>-2^63\<close>, so the stored element of the middle row is \<open>2^62 / (- 2^63) = - 1/2\<close>.
\<close>

theorem MinMax_outside_unit_interval_int64:
  "MinMaxStandardizer [(''x'', ex_int64)] = Inr ex_int64_obj \<and>
   wf ex_int64 \<and> nondegenerate ex_int64 \<and>
   getitem ex_int64_obj ''x''
     = Inr \<lparr>dtype = Floating, ncols = 1, rows = [[Fin 0], [Fin (- 1 / 2)], [Fin 1]]\<rparr> \<and>
   \<not> in_unit (Fin (- 1 / 2))"
  using ex_int64_ctor
  by (simp add: getitem_def ex_int64_obj_def ex_int64_def wf_def nondegenerate_def columns_def)

text \<open>
  C8, as the code has it: for the MinMax variant built from arrays that have rows, and a
  key whose array has, in every column, a maximum strictly greater than the minimum and
  a range \<open>max - min\<close> in the range of the array's dtype (as every range of a
  floating-point array is), the stored normalized array has the shape of the registered
  one, is what \<open>normalize\<close> returns for it, and every element of it is a number between
  0 and 1.
\<close>

theorem MinMax_unit_interval:
  assumes "distinct (map fst kw)" and "has_rows kw" and "map_of kw k = Some a"
    and "wf a" and "nondegenerate a" and "range_fits a"
  shows "\<exists>self y. MinMaxStandardizer kw = Inr self \<and> getitem self k = Inr y \<and>
           MinMax_normalize self (to_elem a) k = Inr y \<and>
           wf y \<and> ncols y = ncols a \<and> length (rows y) = length (rows a) \<and>
           list_all (list_all in_unit) (rows y)"
proof -
  let ?y = "\<lparr>dtype = Floating, ncols = ncols a, rows = map (\<lambda>r. map2 (\<lambda>v col.
            el_div (cast (dtype a) (el_sub v (Fin (Min (set col)))))
                   (Fin (wrap (dtype a) (Max (set col) - Min (set col)))))
            r (columns a)) (map (map Fin) (rows a))\<rparr>"
  from MinMax_total [OF assms(2)] obtain self where self: "MinMaxStandardizer kw = Inr self"
    by blast
  have get: "getitem self k = Inr ?y"
    using MinMax_registered(2) [OF self assms(1,3)] by (simp add: getitem_Some)
  with MinMax_lookup [OF self assms(1,3)] have norm: "MinMax_normalize self (to_elem a) k = Inr ?y"
    by auto
  have unit: "list_all (list_all in_unit) (rows ?y)"
    using assms(4) row_in_unit [OF _ _ assms(5,6)]
    by (simp add: list_all_iff wf_def)
  have shape: "wf ?y" "ncols ?y = ncols a" "length (rows ?y) = length (rows a)"
    using assms(4) by (simp_all add: wf_def list_all_iff)
  from self get norm shape unit show ?thesis by blast
qed

theorem MinMax_unit_interval_witness:
  "distinct (map fst ex_kw) \<and> has_rows ex_kw \<and> map_of ex_kw ''x'' = Some ex_array \<and>
   wf ex_array \<and> nondegenerate ex_array \<and> range_fits ex_array \<and>
   MinMaxStandardizer ex_kw = Inr ex_minmax \<and>
   getitem ex_minmax ''x'' = Inr ex_normalized \<and>
   MinMax_normalize ex_minmax (to_elem ex_array) ''x'' = Inr ex_normalized \<and>
   wf ex_normalized \<and> ncols ex_normalized = ncols ex_array \<and>
   length (rows ex_normalized) = length (rows ex_array) \<and>
   rows ex_normalized \<noteq> [] \<and> list_all (list_all in_unit) (rows ex_normalized)"
proof -
  have hyp: "distinct (map fst ex_kw)" "has_rows ex_kw"
    "map_of ex_kw ''x'' = Some ex_array" "wf ex_array" "nondegenerate ex_array" "range_fits ex_array"
    by (simp_all add: ex_kw_def ex_array_def wf_def columns_def upt_rec has_rows_def
        nondegenerate_def range_fits_def)
  have get: "getitem ex_minmax ''x'' = Inr ex_normalized"
    by (simp add: ex_minmax_def getitem_def)
  from MinMax_unit_interval [OF hyp] ex_MinMax_spec get
  have "MinMax_normalize ex_minmax (to_elem ex_array) ''x'' = Inr ex_normalized"
    "wf ex_normalized" "ncols ex_normalized = ncols ex_array"
    "length (rows ex_normalized) = length (rows ex_array)"
    "list_all (list_all in_unit) (rows ex_normalized)" by auto
  with hyp get ex_MinMax_spec show ?thesis by (simp add: ex_normalized_def)
qed

section \<open>Normalizing and denormalizing\<close>













section \<open>Properties of NormalStandardizer\<close>

lemma sum_list_nth_real: "sum_list (col :: real list) = (\<Sum>i<length col. col ! i)"
  by (simp add: sum_list_sum_nth atLeast0LessThan)

lemma col_mean_population:
  assumes "col \<noteq> []"
  shows "col_mean col = Fin (population_mean col)"
  using assms by (simp add: col_mean_def population_mean_def sum_list_nth_real)

lemma foldr_el_add_Fin: "foldr el_add (map (\<lambda>x. Fin (f x)) col) (Fin 0) = Fin (sum_list (map f col))"
  by (induction col) simp_all

lemma sum_list_map_nth: "sum_list (map f (col :: real list)) = (\<Sum>i<length col. (f (col ! i) :: real))"
  using sum_list_nth_real [of "map f col"] by simp

lemma col_std_population:
  assumes "col \<noteq> []"
  shows "col_std col = Fin (population_std col)"
proof -
  let ?m = "population_mean col"
  have sq: "(\<lambda>x. let d = el_sub (Fin x) (col_mean col) in el_mul d d) = (\<lambda>x. Fin ((x - ?m)\<^sup>2))"
    by (simp add: col_mean_population [OF assms] power2_eq_square)
  have nonneg: "0 \<le> (\<Sum>i<length col. (col ! i - ?m)\<^sup>2) / real (length col)"
    by (intro divide_nonneg_nonneg sum_nonneg) simp_all
  have "\<not> (\<Sum>i<length col. (col ! i - ?m)\<^sup>2) / real (length col) < 0"
    using nonneg by simp
  with assms show ?thesis
    unfolding col_std_def sq foldr_el_add_Fin sum_list_map_nth population_std_def
    by simp
qed

lemma Normal_registered:
  assumes "NormalStandardizer kw = Inr self" "distinct (map fst kw)" "map_of kw k = Some a"
    and "rows a \<noteq> []"
  shows "params self k = Some
           \<lparr>p_mean = \<lparr>vdtype = Floating, vals = map (\<lambda>col. Fin (population_mean col)) (columns a)\<rparr>,
            p_std = \<lparr>vdtype = Floating, vals = map (\<lambda>col. Fin (population_std col)) (columns a)\<rparr>\<rparr>"
proof -
  from fit_loop_registered [OF assms(1) [unfolded Normal_ctor] assms(2,3)]
  obtain p nd where step: "Normal_step a = Inr (p, nd)" and p: "params self k = Some p"
    by blast
  have "map col_mean (columns a) = map (\<lambda>col. Fin (population_mean col)) (columns a)"
    by (rule map_cong [OF refl]) (simp add: col_mean_population nonempty_column [OF assms(4)])
  moreover have "map col_std (columns a) = map (\<lambda>col. Fin (population_std col)) (columns a)"
    by (rule map_cong [OF refl]) (simp add: col_std_population nonempty_column [OF assms(4)])
  ultimately show ?thesis
    using p Normal_step_Inr(1,2) [OF step] by (simp add: mean_def std_def)
qed

lemma Normal_transforms:
  assumes "NormalStandardizer kw = Inr self" "distinct (map fst kw)" "map_of kw k = Some a"
    and "rows a \<noteq> []" and "ncols x = ncols a"
  shows "Normal_normalize self x k = Inr \<lparr>dtype = Floating, ncols = ncols x,
           rows = map (\<lambda>r. map2 (\<lambda>v col.
             el_div (el_sub v (Fin (population_mean col))) (Fin (population_std col)))
             r (columns a)) (rows x)\<rparr>"
    and "Normal_denormalize self x k = Inr \<lparr>dtype = Floating, ncols = ncols x,
           rows = map (\<lambda>r. map2 (\<lambda>v col.
             el_add (el_mul v (Fin (population_std col))) (Fin (population_mean col)))
             r (columns a)) (rows x)\<rparr>"
  using Normal_registered [OF assms(1-4)] assms(5)
  by (simp_all add: Normal_normalize_eq Normal_denormalize_eq forward_columns backward_columns)

lemma ex_population: "population_mean [1, 3] = 2" "population_mean [2, 4] = 3"
  "population_std [1, 3] = 1" "population_std [2, 4] = 1"
  by (simp_all add: population_std_def population_mean_def lessThan_Suc)

text \<open>
  C4: for the Normal variant construction succeeds, and the parameters of a key are the
  column-wise mean and the population standard deviation of its array (which has at
  least one row), as floating-point numbers; \<open>normalize(x, key)\<close> is \<open>(x - mean) / std\<close>
  and \<open>denormalize(y, key)\<close> is \<open>y * std + mean\<close>, element by element and in floating
  point whatever the dtype of the arrays.
\<close>

theorem Normal_formulas:
  "distinct (map fst kw) \<and> map_of kw k = Some a \<and> rows a \<noteq> [] \<longrightarrow>
     (\<exists>self. NormalStandardizer kw = Inr self \<and>
        params self k = Some
          \<lparr>p_mean = \<lparr>vdtype = Floating, vals = map (\<lambda>col. Fin (population_mean col)) (columns a)\<rparr>,
           p_std = \<lparr>vdtype = Floating, vals = map (\<lambda>col. Fin (population_std col)) (columns a)\<rparr>\<rparr> \<and>
        (ncols x = ncols a \<longrightarrow>
           Normal_normalize self x k = Inr \<lparr>dtype = Floating, ncols = ncols x,
             rows = map (\<lambda>r. map2 (\<lambda>v col.
               el_div (el_sub v (Fin (population_mean col))) (Fin (population_std col)))
               r (columns a)) (rows x)\<rparr> \<and>
           Normal_denormalize self x k = Inr \<lparr>dtype = Floating, ncols = ncols x,
             rows = map (\<lambda>r. map2 (\<lambda>v col.
               el_add (el_mul v (Fin (population_std col))) (Fin (population_mean col)))
               r (columns a)) (rows x)\<rparr>))"
proof (intro impI, elim conjE)
  assume hyp: "distinct (map fst kw)" "map_of kw k = Some a" "rows a \<noteq> []"
  from Normal_total obtain self where self: "NormalStandardizer kw = Inr self"
    by blast
  from Normal_registered [OF self hyp] Normal_transforms [OF self hyp] self
  show "\<exists>self. NormalStandardizer kw = Inr self \<and>
        params self k = Some
          \<lparr>p_mean = \<lparr>vdtype = Floating, vals = map (\<lambda>col. Fin (population_mean col)) (columns a)\<rparr>,
           p_std = \<lparr>vdtype = Floating, vals = map (\<lambda>col. Fin (population_std col)) (columns a)\<rparr>\<rparr> \<and>
        (ncols x = ncols a \<longrightarrow>
           Normal_normalize self x k = Inr \<lparr>dtype = Floating, ncols = ncols x,
             rows = map (\<lambda>r. map2 (\<lambda>v col.
               el_div (el_sub v (Fin (population_mean col))) (Fin (population_std col)))
               r (columns a)) (rows x)\<rparr> \<and>
           Normal_denormalize self x k = Inr \<lparr>dtype = Floating, ncols = ncols x,
             rows = map (\<lambda>r. map2 (\<lambda>v col.
               el_add (el_mul v (Fin (population_std col))) (Fin (population_mean col)))
               r (columns a)) (rows x)\<rparr>)"
    by blast
qed

theorem Normal_formulas_witness:
  "distinct (map fst [(''x'', ex_small)]) \<and> map_of [(''x'', ex_small)] ''x'' = Some ex_small \<and>
   rows ex_small \<noteq> [] \<and> ncols (to_elem ex_x) = ncols ex_small \<and>
   (\<exists>n. NormalStandardizer [(''x'', ex_small)] = Inr n \<and>
     params n ''x'' = Some \<lparr>p_mean = \<lparr>vdtype = Floating, vals = [Fin 2, Fin 3]\<rparr>,
                             p_std = \<lparr>vdtype = Floating, vals = [Fin 1, Fin 1]\<rparr>\<rparr> \<and>
     Normal_normalize n (to_elem ex_x) ''x'' =
       Inr \<lparr>dtype = Floating, ncols = 2, rows = [[Fin 5, Fin (- 4)], [Fin (- 2), Fin (- 3 / 2)]]\<rparr> \<and>
     Normal_denormalize n (to_elem ex_x) ''x'' =
       Inr \<lparr>dtype = Floating, ncols = 2, rows = [[Fin 9, Fin 2], [Fin 2, Fin (9 / 2)]]\<rparr>)"
proof -
  have hyp: "distinct (map fst [(''x'', ex_small)]) \<and> map_of [(''x'', ex_small)] ''x'' = Some ex_small \<and>
      rows ex_small \<noteq> []"
    and cols: "ncols (to_elem ex_x) = ncols ex_small"
    by (simp_all add: ex_small_def ex_x_def to_elem_def)
  have columns: "columns ex_small = [[1, 3], [2, 4]]"
    by (simp add: columns_def ex_small_def upt_rec)
  from Normal_formulas [of "[(''x'', ex_small)]" "''x''" ex_small "to_elem ex_x"] hyp cols
  obtain n where n: "NormalStandardizer [(''x'', ex_small)] = Inr n"
    and "params n ''x'' = Some
          \<lparr>p_mean = \<lparr>vdtype = Floating, vals = map (\<lambda>col. Fin (population_mean col)) (columns ex_small)\<rparr>,
           p_std = \<lparr>vdtype = Floating, vals = map (\<lambda>col. Fin (population_std col)) (columns ex_small)\<rparr>\<rparr>"
    and "Normal_normalize n (to_elem ex_x) ''x'' = Inr \<lparr>dtype = Floating, ncols = ncols (to_elem ex_x),
             rows = map (\<lambda>r. map2 (\<lambda>v col.
               el_div (el_sub v (Fin (population_mean col))) (Fin (population_std col)))
               r (columns ex_small)) (rows (to_elem ex_x))\<rparr>"
    and "Normal_denormalize n (to_elem ex_x) ''x'' = Inr \<lparr>dtype = Floating, ncols = ncols (to_elem ex_x),
             rows = map (\<lambda>r. map2 (\<lambda>v col.
               el_add (el_mul v (Fin (population_std col))) (Fin (population_mean col)))
               r (columns ex_small)) (rows (to_elem ex_x))\<rparr>"
    by blast
  then have "params n ''x'' = Some \<lparr>p_mean = \<lparr>vdtype = Floating, vals = [Fin 2, Fin 3]\<rparr>,
                             p_std = \<lparr>vdtype = Floating, vals = [Fin 1, Fin 1]\<rparr>\<rparr>"
    and "Normal_normalize n (to_elem ex_x) ''x'' =
       Inr \<lparr>dtype = Floating, ncols = 2, rows = [[Fin 5, Fin (- 4)], [Fin (- 2), Fin (- 3 / 2)]]\<rparr>"
    and "Normal_denormalize n (to_elem ex_x) ''x'' =
       Inr \<lparr>dtype = Floating, ncols = 2, rows = [[Fin 9, Fin 2], [Fin 2, Fin (9 / 2)]]\<rparr>"
    by (simp_all add: columns ex_population to_elem_def ex_x_def)
  with n hyp cols show ?thesis by blast
qed

section \<open>Properties of RobustStandardizer\<close>








section \<open>Properties of NoneStandardizer\<close>

lemma Tuple_neq: "Tuple [x] \<noteq> x"
proof
  assume "Tuple [x] = x"
  then have "size (Tuple [x]) = size x" by simp
  then show False by simp
qed

text \<open>
  C9: for the Identity variant, \<open>normalize(a, b, c)\<close> returns exactly the tuple
  \<open>(a, b, c)\<close>, and so does \<open>denormalize\<close>; for an argument list of any length both
  return the tuple of the arguments, unchanged.
\<close>

theorem None_passthrough:
  "None_normalize self [a, b, c] = Tuple [a, b, c] \<and>
   None_denormalize self [a, b, c] = Tuple [a, b, c] \<and>
   None_normalize self args = Tuple args \<and>
   None_denormalize self args = Tuple args"
  by (simp add: None_normalize_def None_denormalize_def)

text \<open>
  C10: for the Identity variant, \<open>normalize(x)\<close> and \<open>denormalize(x)\<close> with exactly one
  argument return the one-element tuple \<open>(x,)\<close>, which is never \<open>x\<close> itself.
\<close>

theorem None_single_argument:
  "None_normalize self [x] = Tuple [x] \<and> None_denormalize self [x] = Tuple [x] \<and>
   None_normalize self [x] \<noteq> x \<and> None_denormalize self [x] \<noteq> x"
  using Tuple_neq [of x] by (simp add: None_normalize_def None_denormalize_def)

text \<open>
  C7: lookup of a key supplied at construction returns the normalized array, for every
  variant.  The Identity variant does not: its \<open>init_normalization\<close> stores nothing in
  \<open>data\<close>, so \<open>NoneStandardizer(x=[[1, 2]])["x"]\<close> raises KeyError although \<open>x\<close> was
  supplied.
\<close>

theorem None_lookup_registered_fails:
  "bind (NoneStandardizer [(''x'', \<lparr>dtype = Floating, ncols = 2, rows = [[1, 2]]\<rparr>)]) (\<lambda>self. getitem self ''x'')
     = Inl KeyError"
  by (simp add: NoneStandardizer_def AbsStandardizer_init_def None_init_normalization_def
      bind_def getitem_def)

end
